theory Spec2Isabelle
  imports Main "HOL-Library.Sublist"
begin

section \<open>Python values, exceptions and string helpers\<close>

text \<open>
  Exceptions are values.  Only instances of Python's \<open>Exception\<close> are modelled (they are
  what \<open>except Exception\<close> catches); \<open>str_exc\<close> is \<open>str(e)\<close>, the message.
\<close>

datatype pyexc =
    ValueError string
  | TypeError string
  | IntegrityError string
  | OtherError string

fun str_exc :: "pyexc \<Rightarrow> string" where
  "str_exc (ValueError m) = m"
| "str_exc (TypeError m) = m"
| "str_exc (IntegrityError m) = m"
| "str_exc (OtherError m) = m"

text \<open>
  Characters stand for code points below 256.  \<open>is_space\<close> lists the ones for which
  Python's \<open>str.isspace\<close> holds; \<open>strip\<close> is \<open>str.strip()\<close> and \<open>split_on\<close> is
  \<open>str.split(sep)\<close> for a one-character separator (the result is never empty).
\<close>

definition is_space :: "char \<Rightarrow> bool" where
  "is_space c \<longleftrightarrow> c \<in> set [CHR 0x09, CHR 0x0A, CHR 0x0B, CHR 0x0C, CHR 0x0D,
                           CHR 0x1C, CHR 0x1D, CHR 0x1E, CHR 0x1F, CHR 0x20,
                           CHR 0x85, CHR 0xA0]"

definition strip :: "string \<Rightarrow> string" where
  "strip s = rev (dropWhile is_space (rev (dropWhile is_space s)))"

fun split_on :: "char \<Rightarrow> string \<Rightarrow> string list" where
  "split_on sep [] = [[]]"
| "split_on sep (c # cs) =
     (if c = sep then [] # split_on sep cs
      else (case split_on sep cs of
              [] \<Rightarrow> [[c]]
            | w # ws \<Rightarrow> (c # w) # ws))"

fun join :: "string \<Rightarrow> string list \<Rightarrow> string" where
  "join sep [] = []"
| "join sep [x] = x"
| "join sep (x # y # ys) = x @ sep @ join sep (y # ys)"

text \<open>Decimal rendering of integers: \<open>str(n)\<close>.\<close>

definition digit_char :: "nat \<Rightarrow> char" where
  "digit_char d = char_of (48 + d)"

function str_nat :: "nat \<Rightarrow> string" where
  "str_nat n = (if n < 10 then [digit_char n] else str_nat (n div 10) @ [digit_char (n mod 10)])"
  by pat_completeness auto
termination
  by (relation "measure id") auto

definition str_int :: "int \<Rightarrow> string" where
  "str_int i = (if i < 0 then CHR ''-'' # str_nat (nat (- i)) else str_nat (nat i))"

text \<open>
  The values a product dictionary holds (\<open>dict[str, Any]\<close>): \<open>None\<close>, a string or an integer.
  \<open>str_val\<close> is \<open>str(v)\<close>; \<open>slice_to_100\<close> is \<open>v[:100]\<close>, which raises \<open>TypeError\<close> on a
  value that cannot be subscripted.
\<close>

datatype pyval = PyNone | PyStr string | PyInt int

fun str_val :: "pyval \<Rightarrow> string" where
  "str_val PyNone = ''None''"
| "str_val (PyStr s) = s"
| "str_val (PyInt i) = str_int i"

definition quoted :: "string \<Rightarrow> string" where
  "quoted s = [CHR 0x27] @ s @ [CHR 0x27]"

definition not_subscriptable :: "string \<Rightarrow> pyexc" where
  "not_subscriptable type_name = TypeError (quoted type_name @ '' object is not subscriptable'')"

fun slice_to_100 :: "pyval \<Rightarrow> pyexc + pyval" where
  "slice_to_100 (PyStr s) = Inr (PyStr (take 100 s))"
| "slice_to_100 PyNone = Inl (not_subscriptable ''NoneType'')"
| "slice_to_100 (PyInt i) = Inl (not_subscriptable ''int'')"

text \<open>A dictionary is an association list; \<open>dict_get d k dflt\<close> is \<open>d.get(k, dflt)\<close>.\<close>

type_synonym pydict = "(string \<times> pyval) list"

definition dict_get :: "pydict \<Rightarrow> string \<Rightarrow> pyval \<Rightarrow> pyval" where
  "dict_get d k dflt = (case map_of d k of None \<Rightarrow> dflt | Some v \<Rightarrow> v)"

text \<open>Truthiness of an optional string: \<open>None\<close> and the empty string are falsy.\<close>

fun truthy :: "string option \<Rightarrow> bool" where
  "truthy None = False"
| "truthy (Some s) = (s \<noteq> [])"

section \<open>The remote service and the process environment\<close>

text \<open>
  What the module does not compute itself is an input of the model: the configured
  credential, \<open>mimetypes.guess_type\<close>, \<open>genai.upload_file\<close>, the remote model's
  \<open>generate_content\<close> and a chat session's \<open>send_message\<close> (both given the system
  instruction, and both standing for the whole remote step: getting the model, starting
  the chat from the history, and the call), the string \<open>str(uuid.uuid4())\<close> yields in this request, and the blob
  storage, which saves the upload named by the request and answers with the stored path
  and the full path.  Reading \<open>response.text\<close> can itself raise, so a response carries
  an outcome.
\<close>

type_synonym gfile = string

datatype part = Text string | File gfile

datatype gresponse = Response (response_text: "pyexc + string")

record turn =
  role :: string
  parts :: "string list"

record env =
  GEMINI_API_KEY :: "string option"
  guess_type :: "string \<Rightarrow> string option"
  upload_file :: "string \<Rightarrow> string \<Rightarrow> pyexc + gfile"
  generate_content :: "string option \<Rightarrow> part list \<Rightarrow> pyexc + gresponse"
  send_message :: "string option \<Rightarrow> turn list \<Rightarrow> string \<Rightarrow> pyexc + gresponse"
  uuid4 :: string
  store_upload :: "string \<Rightarrow> pyexc + string \<times> string"

section \<open>GeminiClient\<close>

definition GeminiClient_init :: "env \<Rightarrow> pyexc + unit" where
  "GeminiClient_init e =
     (if \<not> truthy (GEMINI_API_KEY e)
      then Inl (ValueError ''GEMINI_API_KEY not configured in settings'')
      else Inr ())"

text \<open>\<open>_process_uploaded_file\<close>: the body of its \<open>try\<close>, then the handler that re-raises.\<close>

definition process_uploaded_file_try :: "env \<Rightarrow> string \<Rightarrow> pyexc + gfile" where
  "process_uploaded_file_try e file_path =
     (let mime_type = guess_type e file_path in
      if \<not> truthy mime_type then Inl (ValueError ''Could not determine MIME type'')
      else upload_file e file_path (the mime_type))"

definition process_uploaded_file :: "env \<Rightarrow> string \<Rightarrow> pyexc + gfile" where
  "process_uploaded_file e file_path =
     (case process_uploaded_file_try e file_path of
        Inl x \<Rightarrow> Inl (ValueError (''Error processing file: '' @ str_exc x))
      | Inr gemini_file \<Rightarrow> Inr gemini_file)"

definition identify_prompt :: "gfile \<Rightarrow> part list" where
  "identify_prompt gemini_file =
     [Text ''What object is this? Describe how it might be used'',
      Text ''Object: The input is a PC hardware Image (any hardware component related to computers)'',
      Text (''Description: You are a computer parts expert. Identify PC hardware components from images, ''
            @ ''including processors, graphics cards, motherboards, memory modules, storage devices, and PSUs. ''
            @ ''Focus on specific characteristics like brand logos, form factors, and component features. ''
            @ ''The output should only be the exact name of the device, for example, ''
            @ quoted ''Intel Core i9-10900K'' @ '' for a processor ''
            @ ''or '' @ quoted ''ASUS B560 Motherboard''
            @ '' for a motherboard. If given any other images simply reply with ''
            @ quoted ''I cannot identify this as a PC hardware component''),
      Text ''Object: '',
      File gemini_file,
      Text '''',
      Text ''Description: '']"

definition identify_hardware_from_image_try :: "env \<Rightarrow> string \<Rightarrow> pyexc + string" where
  "identify_hardware_from_image_try e image_path =
     (case process_uploaded_file e image_path of
        Inl x \<Rightarrow> Inl x
      | Inr gemini_file \<Rightarrow>
          (case generate_content e None (identify_prompt gemini_file) of
             Inl x \<Rightarrow> Inl x
           | Inr response \<Rightarrow>
               (case response_text response of
                  Inl x \<Rightarrow> Inl x
                | Inr t \<Rightarrow> Inr (strip t))))"

definition identify_hardware_from_image :: "env \<Rightarrow> string \<Rightarrow> pyexc + string" where
  "identify_hardware_from_image e image_path =
     (case identify_hardware_from_image_try e image_path of
        Inr r \<Rightarrow> Inr r
      | Inl x \<Rightarrow> Inr (''Error processing image: '' @ str_exc x))"

text \<open>
  \<open>find_similar_products\<close>.  One line of the product listing; the slice of the description
  is the only step of it that can raise.
\<close>

definition product_line :: "pydict \<Rightarrow> pyexc + string" where
  "product_line p =
     (case slice_to_100 (dict_get p ''description'' (PyStr '''')) of
        Inl x \<Rightarrow> Inl x
      | Inr d \<Rightarrow>
          Inr (''Product ID: '' @ str_val (dict_get p ''id'' (PyStr ''''))
               @ '', Name: '' @ str_val (dict_get p ''name'' (PyStr ''''))
               @ '', Category: '' @ str_val (dict_get p ''category'' (PyStr ''''))
               @ '', Description: '' @ str_val d @ ''...''))"

fun product_lines :: "pydict list \<Rightarrow> pyexc + string list" where
  "product_lines [] = Inr []"
| "product_lines (p # ps) =
     (case product_line p of
        Inl x \<Rightarrow> Inl x
      | Inr l \<Rightarrow> (case product_lines ps of Inl x \<Rightarrow> Inl x | Inr ls \<Rightarrow> Inr (l # ls)))"

definition similar_prompt :: "gfile \<Rightarrow> string \<Rightarrow> part list" where
  "similar_prompt gemini_file products_string =
     [Text (''I have an image of a PC hardware component and a database of products. ''
            @ ''Based on the image, identify the component and suggest the most similar products ''
            @ ''from the database. Return the product IDs of the 3 most relevant matches.''),
      Text ''Image: '',
      File gemini_file,
      Text ''Product Database:'',
      Text products_string,
      Text ''Most similar product IDs (comma separated):'']"

text \<open>The ids parsed from the reply, and the final selection over the candidate list.\<close>

definition parse_product_ids :: "string \<Rightarrow> string list" where
  "parse_product_ids t = map strip (split_on CHR '','' (strip t))"

definition matching_products :: "string list \<Rightarrow> pydict list \<Rightarrow> pydict list" where
  "matching_products product_ids product_database =
     filter (\<lambda>p. str_val (dict_get p ''id'' (PyStr '''')) \<in> set product_ids) product_database"

text \<open>The reply text of the remote model: every step of the \<open>try\<close> block before the parse.\<close>

definition find_similar_products_reply :: "env \<Rightarrow> string \<Rightarrow> pydict list \<Rightarrow> pyexc + string" where
  "find_similar_products_reply e image_path product_database =
     (case process_uploaded_file e image_path of
        Inl x \<Rightarrow> Inl x
      | Inr gemini_file \<Rightarrow>
          (case product_lines product_database of
             Inl x \<Rightarrow> Inl x
           | Inr ls \<Rightarrow>
               (case generate_content e None (similar_prompt gemini_file (join [CHR 0x0A] ls)) of
                  Inl x \<Rightarrow> Inl x
                | Inr response \<Rightarrow> response_text response)))"

definition find_similar_products_try :: "env \<Rightarrow> string \<Rightarrow> pydict list \<Rightarrow> pyexc + pydict list" where
  "find_similar_products_try e image_path product_database =
     (case find_similar_products_reply e image_path product_database of
        Inl x \<Rightarrow> Inl x
      | Inr t \<Rightarrow> Inr (matching_products (parse_product_ids t) product_database))"

definition find_similar_products :: "env \<Rightarrow> string \<Rightarrow> pydict list \<Rightarrow> pyexc + pydict list" where
  "find_similar_products e image_path product_database =
     (case find_similar_products_try e image_path product_database of
        Inr r \<Rightarrow> Inr r
      | Inl x \<Rightarrow> Inr [])"

text \<open>\<open>hardware_chat\<close>.  A history of \<open>None\<close> and the empty list are both falsy.\<close>

record chat_result =
  response :: string
  history :: "turn list"

definition system_instruction :: string where
  "system_instruction =
     ''Act as a professional computer consultant with expertise in both hardware and software. ''
     @ ''Provide accurate and up-to-date recommendations based on the latest technologies and best practices. ''
     @ ''Keep responses concise and answer only the question asked. ''
     @ ''Avoid unnecessary introductions or explanations unless explicitly requested by the user. ''
     @ ''If clarification is needed, ask a short follow-up question. ''
     @ ''Anything not related to computers respond with ''
     @ quoted (''I can'' @ [CHR 0x27] @ ''t answer that!'')"

fun history_or_empty :: "turn list option \<Rightarrow> turn list" where
  "history_or_empty None = []"
| "history_or_empty (Some h) = h"

definition new_turns :: "string \<Rightarrow> string \<Rightarrow> turn list" where
  "new_turns query answer =
     [\<lparr>role = ''user'', parts = [query]\<rparr>, \<lparr>role = ''model'', parts = [answer]\<rparr>]"

definition hardware_chat_try :: "env \<Rightarrow> string \<Rightarrow> turn list option \<Rightarrow> pyexc + chat_result" where
  "hardware_chat_try e query hist =
     (case (if history_or_empty hist \<noteq> []
            then send_message e (Some system_instruction) (history_or_empty hist) query
            else generate_content e (Some system_instruction) [Text query]) of
        Inl x \<Rightarrow> Inl x
      | Inr resp \<Rightarrow>
          (case response_text resp of
             Inl x \<Rightarrow> Inl x
           | Inr t \<Rightarrow>
               Inr \<lparr>response = strip t,
                    history = (if history_or_empty hist \<noteq> []
                               then history_or_empty hist @ new_turns query (strip t)
                               else new_turns query (strip t))\<rparr>))"

definition hardware_chat :: "env \<Rightarrow> string \<Rightarrow> turn list option \<Rightarrow> pyexc + chat_result" where
  "hardware_chat e query hist =
     (case hardware_chat_try e query hist of
        Inr r \<Rightarrow> Inr r
      | Inl x \<Rightarrow>
          Inr \<lparr>response = ''Error processing query: '' @ str_exc x,
               history = history_or_empty hist\<rparr>)"

section \<open>The record store and the catalogue\<close>

text \<open>
  Reading a decimal integer back, as the ORM does (with \<open>int(value)\<close>) when a string is
  compared with an integer column.  \<open>int\<close> skips the whitespace of \<open>is_int_space\<close> at both
  ends (not the separators \<open>0x1C\<close> to \<open>0x1F\<close>, which \<open>strip\<close> does remove), takes one sign,
  and then digits, where a single underscore may stand between two digits.  The
  interpreter's limit on the number of digits is left out: database keys stay far below it.
\<close>

definition is_int_space :: "char \<Rightarrow> bool" where
  "is_int_space c \<longleftrightarrow> c \<in> set [CHR 0x09, CHR 0x0A, CHR 0x0B, CHR 0x0C, CHR 0x0D, CHR 0x20,
                               CHR 0x85, CHR 0xA0]"

definition int_strip :: "string \<Rightarrow> string" where
  "int_strip s = rev (dropWhile is_int_space (rev (dropWhile is_int_space s)))"

definition digit_val :: "char \<Rightarrow> nat option" where
  "digit_val c =
     (let n = (of_char c :: nat) in if 48 \<le> n \<and> n \<le> 57 then Some (n - 48) else None)"

fun parse_digits :: "nat \<Rightarrow> string \<Rightarrow> nat option" where
  "parse_digits acc [] = Some acc"
| "parse_digits acc (c # cs) =
     (case digit_val c of
        Some d \<Rightarrow> parse_digits (acc * 10 + d) cs
      | None \<Rightarrow>
          (if c = CHR ''_'' \<and> (case cs of [] \<Rightarrow> False | c' # _ \<Rightarrow> digit_val c' \<noteq> None)
           then parse_digits acc cs
           else None))"

definition int_digits :: "string \<Rightarrow> nat option" where
  "int_digits s =
     (case s of
        [] \<Rightarrow> None
      | c # cs \<Rightarrow> if digit_val c = None then None else parse_digits 0 (c # cs))"

definition int_of_str :: "string \<Rightarrow> int option" where
  "int_of_str s =
     (case int_strip s of
        [] \<Rightarrow> None
      | c # cs \<Rightarrow>
          if c = CHR ''-'' then map_option (\<lambda>n. - int n) (int_digits cs)
          else if c = CHR ''+'' then map_option int (int_digits cs)
          else map_option int (int_digits (c # cs)))"

text \<open>
  \<open>repr_str\<close> is \<open>repr(s)\<close> of a string: quoted (with double quotes when the string holds
  a single quote and no double quote), with the quote, the backslash, tab, newline and
  carriage return escaped and every other unprintable character written \<open>\xhh\<close>.
\<close>

definition hex_digit :: "nat \<Rightarrow> char" where
  "hex_digit n = (if n < 10 then char_of (48 + n) else char_of (87 + n))"

definition printable :: "char \<Rightarrow> bool" where
  "printable c =
     (let n = (of_char c :: nat) in (32 \<le> n \<and> n < 127) \<or> (161 \<le> n \<and> n \<noteq> 173))"

definition repr_char :: "char \<Rightarrow> char \<Rightarrow> string" where
  "repr_char quote c =
     (if c = quote \<or> c = CHR 0x5C then [CHR 0x5C, c]
      else if c = CHR 0x09 then [CHR 0x5C, CHR ''t'']
      else if c = CHR 0x0A then [CHR 0x5C, CHR ''n'']
      else if c = CHR 0x0D then [CHR 0x5C, CHR ''r'']
      else if printable c then [c]
      else [CHR 0x5C, CHR ''x'', hex_digit ((of_char c :: nat) div 16),
            hex_digit ((of_char c :: nat) mod 16)])"

definition repr_str :: "string \<Rightarrow> string" where
  "repr_str s =
     (let quote = (if CHR 0x27 \<in> set s \<and> CHR 0x22 \<notin> set s then CHR 0x22 else CHR 0x27)
      in quote # concat (map (repr_char quote) s) @ [quote])"

text \<open>
  Modelled from the spec: the catalogue's \<open>Product\<close> entity and its manager
  (\<open>saleor.product.models\<close> is not among the sources).  The spec gives a product an id, a
  name, an optional category with a name, and a description, and gives the catalogue two
  reads: by category filter and by id list.  Ids are integer primary keys; a value that is
  not a number makes the lookup raise \<open>ValueError\<close>, and \<open>None\<close> in an id list is ignored.
\<close>

record category =
  category_pk :: int
  category_name :: string

record product =
  product_id :: int
  product_name :: string
  product_category :: "category option"
  product_description :: pyval

definition field_expected_number :: "string \<Rightarrow> pyexc" where
  "field_expected_number s =
     ValueError (''Field '' @ quoted ''id'' @ '' expected a number but got '' @ repr_str s @ ''.'')"

text \<open>
  Modelled from the spec: the catalogue's read by category filter,
  \<open>Product.objects.filter(category_id=...)\<close>, over the stored products in their default order.
\<close>

definition Product_filter_category :: "string \<Rightarrow> product list \<Rightarrow> pyexc + product list" where
  "Product_filter_category cid ps =
     (case int_of_str cid of
        None \<Rightarrow> Inl (field_expected_number cid)
      | Some c \<Rightarrow>
          Inr (filter (\<lambda>p. case product_category p of
                              None \<Rightarrow> False
                            | Some cat \<Rightarrow> category_pk cat = c) ps))"

text \<open>
  Modelled from the spec: the catalogue's read by id list,
  \<open>Product.objects.filter(id__in=...)\<close>; \<open>prep_ids\<close> turns the listed values into keys.
\<close>

fun prep_ids :: "pyval list \<Rightarrow> pyexc + int list" where
  "prep_ids [] = Inr []"
| "prep_ids (PyNone # vs) = prep_ids vs"
| "prep_ids (PyInt i # vs) = (case prep_ids vs of Inl x \<Rightarrow> Inl x | Inr is \<Rightarrow> Inr (i # is))"
| "prep_ids (PyStr s # vs) =
     (case int_of_str s of
        None \<Rightarrow> Inl (field_expected_number s)
      | Some i \<Rightarrow> (case prep_ids vs of Inl x \<Rightarrow> Inl x | Inr is \<Rightarrow> Inr (i # is)))"

definition Product_filter_id_in :: "pyval list \<Rightarrow> product list \<Rightarrow> pyexc + product list" where
  "Product_filter_id_in ids ps =
     (case prep_ids ids of
        Inl x \<Rightarrow> Inl x
      | Inr is \<Rightarrow> Inr (filter (\<lambda>p. product_id p \<in> set is) ps))"

text \<open>
  The rows of \<open>models.py\<close>.  A chat session is found by its unique \<open>session_id\<close>, so the
  sessions are a map from that id to the stored history; the other tables are lists in
  creation order.  Timestamps and primary keys play no part in what follows.
\<close>

record hardware_chat_row =
  row_session_id :: string
  row_history :: "turn list"

record hardware_query =
  query_chat :: string
  question :: string
  answer :: string

record product_similarity_search =
  search_image :: string
  identified_component :: string
  similar_product_ids :: "pyval list"

record db =
  products :: "product list"
  chats :: "string \<rightharpoonup> turn list"
  queries :: "hardware_query list"
  searches :: "product_similarity_search list"

definition HardwareChat_get :: "db \<Rightarrow> string \<Rightarrow> hardware_chat_row option" where
  "HardwareChat_get d sid =
     (case chats d sid of
        None \<Rightarrow> None
      | Some h \<Rightarrow> Some \<lparr>row_session_id = sid, row_history = h\<rparr>)"

definition HardwareChat_create :: "db \<Rightarrow> string \<Rightarrow> turn list \<Rightarrow> pyexc + db \<times> hardware_chat_row" where
  "HardwareChat_create d sid h =
     (if sid \<in> dom (chats d)
      then Inl (IntegrityError ''duplicate key value violates unique constraint'')
      else Inr (d\<lparr>chats := (chats d)(sid \<mapsto> h)\<rparr>, \<lparr>row_session_id = sid, row_history = h\<rparr>))"

definition HardwareChat_save :: "db \<Rightarrow> hardware_chat_row \<Rightarrow> db" where
  "HardwareChat_save d r = d\<lparr>chats := (chats d)(row_session_id r \<mapsto> row_history r)\<rparr>"

section \<open>The mutations of schema.py\<close>

subsection \<open>HardwareChatMessage\<close>

record chat_input =
  in_session_id :: "string option"
  in_query :: string

record chat_output =
  out_chat :: hardware_chat_row
  out_response :: string

text \<open>
  Lines 175 to 193: the session the call works on and the history it starts from.  The
  session id is only looked up when it is truthy; a new session takes the generated id.
\<close>

definition chat_session_for :: "env \<Rightarrow> db \<Rightarrow> string option \<Rightarrow> pyexc + db \<times> hardware_chat_row" where
  "chat_session_for e d session_id =
     (if truthy session_id then
        (case HardwareChat_get d (the session_id) of
           Some chat_session \<Rightarrow> Inr (d, chat_session)
         | None \<Rightarrow> HardwareChat_create d (uuid4 e) [])
      else HardwareChat_create d (uuid4 e) [])"

definition HardwareChatMessage_perform_mutation ::
  "env \<Rightarrow> db \<Rightarrow> chat_input \<Rightarrow> pyexc + db \<times> chat_output" where
  "HardwareChatMessage_perform_mutation e d inp =
     (case GeminiClient_init e of
        Inl x \<Rightarrow> Inl x
      | Inr client \<Rightarrow>
          (case chat_session_for e d (in_session_id inp) of
             Inl x \<Rightarrow> Inl x
           | Inr (d1, chat_session) \<Rightarrow>
               (case hardware_chat e (in_query inp) (Some (row_history chat_session)) of
                  Inl x \<Rightarrow> Inl x
                | Inr result \<Rightarrow>
                    (let saved = chat_session\<lparr>row_history := history result\<rparr>;
                         d2 = HardwareChat_save d1 saved;
                         d3 = d2\<lparr>queries := queries d2 @
                                 [\<lparr>query_chat = row_session_id saved,
                                   question = in_query inp,
                                   answer = response result\<rparr>]\<rparr>
                     in Inr (d3, \<lparr>out_chat = saved, out_response = response result\<rparr>)))))"

subsection \<open>FindSimilarProducts\<close>

text \<open>
  \<open>max_results\<close> is an optional integer (the schema fills in 3 when the field is left out;
  \<open>None\<close> is an explicit null).  \<open>py_slice_to m xs\<close> is the slice \<open>xs[:m]\<close>: a negative
  bound counts from the end, and \<open>None\<close> keeps the whole list.
\<close>

record find_input =
  in_category_id :: "string option"
  in_max_results :: "int option"

record find_output =
  out_product_search :: product_similarity_search
  out_similar_products :: "product list"

fun py_slice_to :: "int option \<Rightarrow> 'a list \<Rightarrow> 'a list" where
  "py_slice_to None xs = xs"
| "py_slice_to (Some m) xs =
     (if 0 \<le> m then take (nat m) xs else take (length xs - nat (- m)) xs)"

definition product_dict :: "product \<Rightarrow> pydict" where
  "product_dict p =
     [(''id'', PyStr (str_int (product_id p))),
      (''name'', PyStr (product_name p)),
      (''category'', PyStr (case product_category p of
                              None \<Rightarrow> []
                            | Some cat \<Rightarrow> category_name cat)),
      (''description'', product_description p)]"

text \<open>Lines 244 to 247: the candidate set loaded from the catalogue.\<close>

definition products_query :: "db \<Rightarrow> string option \<Rightarrow> pyexc + product list" where
  "products_query d category_id =
     (if truthy category_id then Product_filter_category (the category_id) (products d)
      else Inr (products d))"

definition FindSimilarProducts_perform_mutation ::
  "env \<Rightarrow> db \<Rightarrow> string \<Rightarrow> find_input \<Rightarrow> pyexc + db \<times> find_output" where
  "FindSimilarProducts_perform_mutation e d image_key inp =
     (case store_upload e image_key of
        Inl x \<Rightarrow> Inl x
      | Inr (path, full_path) \<Rightarrow>
     (case products_query d (in_category_id inp) of
        Inl x \<Rightarrow> Inl x
      | Inr candidates \<Rightarrow>
     (let product_database = map product_dict candidates in
     (case GeminiClient_init e of
        Inl x \<Rightarrow> Inl x
      | Inr client \<Rightarrow>
     (case identify_hardware_from_image e full_path of
        Inl x \<Rightarrow> Inl x
      | Inr hardware_id_result \<Rightarrow>
     (case find_similar_products e full_path product_database of
        Inl x \<Rightarrow> Inl x
      | Inr similar_products_data \<Rightarrow>
     (let limited = py_slice_to (in_max_results inp) similar_products_data;
          product_ids = map (\<lambda>item. dict_get item ''id'' PyNone) limited;
          product_search = \<lparr>search_image = path,
                            identified_component = hardware_id_result,
                            similar_product_ids = product_ids\<rparr>;
          d1 = d\<lparr>searches := searches d @ [product_search]\<rparr>
      in (case Product_filter_id_in product_ids (products d1) of
            Inl x \<Rightarrow> Inl x
          | Inr similar_products \<Rightarrow>
              Inr (d1, \<lparr>out_product_search = product_search,
                        out_similar_products = similar_products\<rparr>)))))))))"

subsection \<open>Sequences of chat-message calls\<close>

text \<open>
  A call is successful when the mutation returns and its chat did not fall into the
  \<open>except\<close> branch.  \<open>successful_chat_calls\<close> runs calls one after the other, each later
  call sending the session id the call before it returned, and gives the final store and
  the responses when every call was successful.  \<open>starting_history\<close> is the history the
  first call works from, and \<open>turns_of_calls\<close> the user and model turns of the calls in
  call order.
\<close>

definition chat_call_ok :: "env \<Rightarrow> db \<Rightarrow> chat_input \<Rightarrow> bool" where
  "chat_call_ok e d inp =
     (case chat_session_for e d (in_session_id inp) of
        Inl x \<Rightarrow> False
      | Inr (d1, chat_session) \<Rightarrow>
          (case hardware_chat_try e (in_query inp) (Some (row_history chat_session)) of
             Inl x \<Rightarrow> False
           | Inr r \<Rightarrow> True))"

fun successful_chat_calls ::
  "db \<Rightarrow> string option \<Rightarrow> (env \<times> string) list \<Rightarrow> (db \<times> chat_output list) option" where
  "successful_chat_calls d sid [] = Some (d, [])"
| "successful_chat_calls d sid ((e, q) # rest) =
     (if chat_call_ok e d \<lparr>in_session_id = sid, in_query = q\<rparr> then
        (case HardwareChatMessage_perform_mutation e d \<lparr>in_session_id = sid, in_query = q\<rparr> of
           Inl x \<Rightarrow> None
         | Inr (d1, out) \<Rightarrow>
             (case successful_chat_calls d1 (Some (row_session_id (out_chat out))) rest of
                None \<Rightarrow> None
              | Some (d2, outs) \<Rightarrow> Some (d2, out # outs)))
      else None)"

definition starting_history :: "db \<Rightarrow> string option \<Rightarrow> turn list" where
  "starting_history d sid =
     (if truthy sid then (case chats d (the sid) of None \<Rightarrow> [] | Some h \<Rightarrow> h) else [])"

definition turns_of_calls :: "(env \<times> string) list \<Rightarrow> chat_output list \<Rightarrow> turn list" where
  "turns_of_calls calls outs =
     concat (map (\<lambda>((e, q), out). new_turns q (out_response out)) (zip calls outs))"

section \<open>Concrete environments and inputs\<close>

text \<open>
  A remote service that accepts every upload and answers every prompt with the given
  text, and variations of it: a file whose media type is unknown, and a remote call
  that raises.
\<close>

definition demo_env :: "string \<Rightarrow> env" where
  "demo_env reply =
     \<lparr>GEMINI_API_KEY = Some ''secret'',
      guess_type = (\<lambda>p. Some ''image/png''),
      upload_file = (\<lambda>p m. Inr (''files/'' @ p)),
      generate_content = (\<lambda>si ps. Inr (Response (Inr reply))),
      send_message = (\<lambda>si h q. Inr (Response (Inr reply))),
      uuid4 = ''1b4e28ba-2fa1-41d2-883f-0016d3cca427'',
      store_upload = (\<lambda>k. Inr (''pss/'' @ k, ''/media/pss/'' @ k))\<rparr>"

definition unknown_type_env :: env where
  "unknown_type_env = (demo_env ''RTX 3080'')\<lparr>guess_type := (\<lambda>p. None)\<rparr>"

definition offline_env :: env where
  "offline_env =
     (demo_env [])\<lparr>generate_content := (\<lambda>si ps. Inl (OtherError ''connection refused'')),
                   send_message := (\<lambda>si h q. Inl (OtherError ''connection refused''))\<rparr>"

definition blocked_env :: env where
  "blocked_env =
     (demo_env [])\<lparr>generate_content :=
                     (\<lambda>si ps. Inr (Response (Inl (ValueError ''response has no text''))))\<rparr>"

definition candidate :: "string \<Rightarrow> string \<Rightarrow> pydict" where
  "candidate i n =
     [(''id'', PyStr i), (''name'', PyStr n), (''category'', PyStr ''GPU''),
      (''description'', PyStr ''a graphics card'')]"

definition product_line_A :: string where
  "product_line_A = ''Product ID: 1, Name: A, Category: GPU, Description: a graphics card...''"

definition three_candidates :: "pydict list" where
  "three_candidates = [candidate ''1'' ''A'', candidate ''2'' ''B'', candidate ''3'' ''C'']"

text \<open>
  The selection as the specification words it, for comparison with \<open>matching_products\<close>:
  the candidates whose id matches, in the order of the ids in the remote reply.
\<close>

definition response_order_selection :: "string list \<Rightarrow> pydict list \<Rightarrow> pydict list" where
  "response_order_selection product_ids product_database =
     concat (map (\<lambda>i. filter (\<lambda>p. str_val (dict_get p ''id'' (PyStr [])) = i) product_database)
                 product_ids)"

definition gpu :: category where
  "gpu = \<lparr>category_pk = 7, category_name = ''GPU''\<rparr>"

definition demo_products :: "product list" where
  "demo_products =
     [\<lparr>product_id = 1, product_name = ''RTX 3080'', product_category = Some gpu,
       product_description = PyStr ''a graphics card''\<rparr>,
      \<lparr>product_id = 2, product_name = ''RTX 3090'', product_category = Some gpu,
       product_description = PyStr ''a bigger graphics card''\<rparr>,
      \<lparr>product_id = 12, product_name = ''Ryzen 9'', product_category = None,
       product_description = PyStr ''a processor''\<rparr>]"

definition demo_db :: db where
  "demo_db = \<lparr>products = demo_products, chats = Map.empty, queries = [], searches = []\<rparr>"

definition stale_db :: db where
  "stale_db =
     demo_db\<lparr>chats := [[] \<mapsto> new_turns ''old question'' ''old answer'',
                        ''known'' \<mapsto> new_turns ''hi'' ''hello'']\<rparr>"

definition two_calls :: "(env \<times> string) list" where
  "two_calls =
     [(demo_env ''A GPU renders graphics. '', ''What is a GPU?''),
      (demo_env ''Yes.'', ''Do I need one?'')]"

section \<open>Decimal strings read back\<close>

declare str_nat.simps [simp del]

lemma digit_val_digit_char: "d < 10 \<Longrightarrow> digit_val (digit_char d) = Some d"
  by (simp add: digit_val_def digit_char_def Let_def)

lemma digit_char_plain:
  assumes "d < 10"
  shows "\<not> is_space (digit_char d)" and "digit_char d \<noteq> CHR ''-''" and "digit_char d \<noteq> CHR ''+''"
proof -
  have "of_char (digit_char d) = 48 + d"
    using assms by (simp add: digit_char_def)
  moreover have "48 \<le> 48 + d" "48 + d \<le> 57"
    using assms by simp_all
  ultimately have r: "48 \<le> (of_char (digit_char d) :: nat)" "(of_char (digit_char d) :: nat) \<le> 57"
    by simp_all
  have sp: "is_space c \<Longrightarrow> (of_char c :: nat) < 48 \<or> 57 < (of_char c :: nat)" for c
    by (auto simp: is_space_def)
  show "\<not> is_space (digit_char d)" using sp r by fastforce
  show "digit_char d \<noteq> CHR ''-''" using r by auto
  show "digit_char d \<noteq> CHR ''+''" using r by auto
qed

lemma str_nat_chars: "c \<in> set (str_nat n) \<Longrightarrow> \<exists>d < 10. c = digit_char d"
proof (induction n rule: str_nat.induct)
  case (1 n)
  show ?case
  proof (cases "n < 10")
    case True
    with "1.prems" show ?thesis by (auto simp: str_nat.simps [of n])
  next
    case False
    with "1.prems" have "c \<in> set (str_nat (n div 10)) \<or> c = digit_char (n mod 10)"
      by (auto simp: str_nat.simps [of n])
    then show ?thesis
    proof
      assume "c \<in> set (str_nat (n div 10))"
      with "1.IH" False show ?thesis by simp
    next
      assume "c = digit_char (n mod 10)"
      moreover have "n mod 10 < 10" by simp
      ultimately show ?thesis by blast
    qed
  qed
qed

lemma str_nat_not_Nil: "str_nat n \<noteq> []"
  by (subst str_nat.simps) simp

lemma parse_digits_append:
  "\<forall>c \<in> set xs. digit_val c \<noteq> None \<Longrightarrow>
   parse_digits a (xs @ ys) = (case parse_digits a xs of None \<Rightarrow> None | Some b \<Rightarrow> parse_digits b ys)"
  by (induction xs arbitrary: a) (auto split: option.splits)

lemma str_nat_digits: "\<forall>c \<in> set (str_nat n). digit_val c \<noteq> None"
  using str_nat_chars digit_val_digit_char by fastforce

lemma parse_digits_str_nat: "parse_digits 0 (str_nat n) = Some n"
proof (induction n rule: str_nat.induct)
  case (1 n)
  show ?case
  proof (cases "n < 10")
    case True
    then show ?thesis by (simp add: str_nat.simps [of n] digit_val_digit_char)
  next
    case False
    with "1.IH" have "parse_digits 0 (str_nat (n div 10)) = Some (n div 10)" by simp
    with False show ?thesis
      by (simp add: str_nat.simps [of n] parse_digits_append str_nat_digits digit_val_digit_char)
  qed
qed

lemma is_int_space_is_space: "is_int_space c \<Longrightarrow> is_space c"
  by (auto simp: is_int_space_def is_space_def)

lemma int_strip_no_space: "\<forall>c \<in> set s. \<not> is_int_space c \<Longrightarrow> int_strip s = s"
proof -
  assume a: "\<forall>c \<in> set s. \<not> is_int_space c"
  have d: "dropWhile is_int_space xs = xs" if "\<forall>c \<in> set xs. \<not> is_int_space c" for xs
    using that by (cases xs) auto
  from a have "dropWhile is_int_space s = s" by (rule d)
  moreover from a have "dropWhile is_int_space (rev s) = rev s" by (intro d) simp
  ultimately show ?thesis by (simp add: int_strip_def)
qed

lemma str_nat_plain:
  "int_strip (str_nat n) = str_nat n" "hd (str_nat n) \<noteq> CHR ''-''" "hd (str_nat n) \<noteq> CHR ''+''"
proof -
  have c: "\<forall>c \<in> set (str_nat n). \<not> is_int_space c \<and> c \<noteq> CHR ''-'' \<and> c \<noteq> CHR ''+''"
  proof
    fix c assume "c \<in> set (str_nat n)"
    then obtain d where "d < 10" "c = digit_char d"
      using str_nat_chars by blast
    then show "\<not> is_int_space c \<and> c \<noteq> CHR ''-'' \<and> c \<noteq> CHR ''+''"
      using digit_char_plain [of d] is_int_space_is_space [of "digit_char d"] by auto
  qed
  then show "int_strip (str_nat n) = str_nat n" by (simp add: int_strip_no_space)
  have "hd (str_nat n) \<in> set (str_nat n)" using str_nat_not_Nil by simp
  with c show "hd (str_nat n) \<noteq> CHR ''-''" "hd (str_nat n) \<noteq> CHR ''+''" by blast+
qed

lemma int_digits_str_nat: "int_digits (str_nat n) = Some n"
proof -
  obtain c cs where s: "str_nat n = c # cs"
    using str_nat_not_Nil by (cases "str_nat n") auto
  then have "digit_val c \<noteq> None"
    using str_nat_digits [of n] by simp
  with s parse_digits_str_nat [of n] show ?thesis
    by (simp add: int_digits_def)
qed

lemma int_of_str_str_int: "int_of_str (str_int i) = Some i"
proof (cases "i < 0")
  case True
  have "\<not> is_int_space CHR ''-''"
    by (simp add: is_int_space_def)
  moreover have "\<forall>c \<in> set (str_nat (nat (- i))). \<not> is_int_space c"
    using str_nat_chars digit_char_plain(1) is_int_space_is_space by metis
  ultimately have "\<forall>c \<in> set (CHR ''-'' # str_nat (nat (- i))). \<not> is_int_space c"
    by simp
  then have "int_strip (CHR ''-'' # str_nat (nat (- i))) = CHR ''-'' # str_nat (nat (- i))"
    by (rule int_strip_no_space)
  with True show ?thesis
    by (simp add: int_of_str_def str_int_def int_digits_str_nat)
next
  case False
  obtain c cs where s: "str_nat (nat i) = c # cs"
    using str_nat_not_Nil by (cases "str_nat (nat i)") auto
  with str_nat_plain(2,3) [of "nat i"] have "c \<noteq> CHR ''-''" "c \<noteq> CHR ''+''" by simp_all
  moreover have "int_digits (c # cs) = Some (nat i)"
    using int_digits_str_nat [of "nat i"] s by simp
  ultimately show ?thesis
    using False s str_nat_plain(1) [of "nat i"]
    by (simp add: int_of_str_def str_int_def)
qed

section \<open>Properties of the client\<close>

lemmas client_defs =
  find_similar_products_def find_similar_products_try_def find_similar_products_reply_def
  identify_hardware_from_image_def identify_hardware_from_image_try_def
  process_uploaded_file_def process_uploaded_file_try_def
  hardware_chat_def hardware_chat_try_def

lemmas demo_defs =
  demo_env_def unknown_type_env_def offline_env_def blocked_env_def
  candidate_def three_candidates_def product_line_def dict_get_def
  matching_products_def parse_product_ids_def strip_def is_space_def new_turns_def

lemma find_similar_products_cases:
  "find_similar_products e p ps =
     (case find_similar_products_reply e p ps of
        Inl x \<Rightarrow> Inr []
      | Inr t \<Rightarrow> Inr (matching_products (parse_product_ids t) ps))"
  by (simp add: find_similar_products_def find_similar_products_try_def split: sum.splits)

text \<open>
  C7.  \<open>identify_hardware_from_image\<close> never raises: it always returns a string.  When the
  upload, the remote call and the reading of the reply all succeed, the string is the
  trimmed reply; when the body of the \<open>try\<close> raises \<open>x\<close>, the string is
  \<open>Error processing image: \<close> followed by the message of \<open>x\<close>.
\<close>

theorem identify_hardware_from_image_returns_string:
  "(\<exists>s. identify_hardware_from_image e p = Inr s) \<and>
   (\<forall>f t. process_uploaded_file e p = Inr f \<longrightarrow>
          generate_content e None (identify_prompt f) = Inr (Response (Inr t)) \<longrightarrow>
          identify_hardware_from_image e p = Inr (strip t)) \<and>
   (\<forall>x. identify_hardware_from_image_try e p = Inl x \<longrightarrow>
        identify_hardware_from_image e p = Inr (''Error processing image: '' @ str_exc x))"
  by (auto simp: identify_hardware_from_image_def identify_hardware_from_image_try_def
           split: sum.splits)

theorem identify_hardware_from_image_returns_string_witness:
  "identify_hardware_from_image (demo_env ''  RTX 3080 '') ''photo.png'' = Inr ''RTX 3080'' \<and>
   identify_hardware_from_image offline_env ''photo.png''
     = Inr ''Error processing image: connection refused'' \<and>
   identify_hardware_from_image blocked_env ''photo.png''
     = Inr ''Error processing image: response has no text''"
  using identify_hardware_from_image_returns_string [of "demo_env ''  RTX 3080 ''" "''photo.png''"]
    identify_hardware_from_image_returns_string [of offline_env "''photo.png''"]
    identify_hardware_from_image_returns_string [of blocked_env "''photo.png''"]
  by (simp add: client_defs demo_defs)

text \<open>
  C2, as the code has it.  When the media type of the path cannot be determined,
  \<open>_process_uploaded_file\<close> raises a \<open>ValueError\<close>, and \<open>identify_hardware_from_image\<close>
  catches it and returns an error string: the fault does not reach the caller.
\<close>

theorem identify_unknown_media_type_returns_error_string:
  assumes "\<not> truthy (guess_type e p)"
  shows "process_uploaded_file e p
           = Inl (ValueError ''Error processing file: Could not determine MIME type'') \<and>
         identify_hardware_from_image e p
           = Inr ''Error processing image: Error processing file: Could not determine MIME type''"
  using assms by (simp add: client_defs)

theorem identify_unknown_media_type_returns_error_string_witness:
  "\<not> truthy (guess_type unknown_type_env ''part'') \<and>
   process_uploaded_file unknown_type_env ''part''
     = Inl (ValueError ''Error processing file: Could not determine MIME type'')"
  using identify_unknown_media_type_returns_error_string [of unknown_type_env "''part''"]
  by (simp add: demo_defs)

text \<open>
  C2 as claimed fails: on a path of unknown media type the call returns a value.
\<close>

theorem identify_unknown_media_type_not_raised:
  "guess_type unknown_type_env ''part'' = None \<and>
   identify_hardware_from_image unknown_type_env ''part''
     = Inr ''Error processing image: Error processing file: Could not determine MIME type''"
  by (simp add: client_defs demo_defs)

text \<open>
  C8.  When \<open>find_similar_products\<close> fails, the caller gets the empty list and no fault:
  whether the upload fails, a description cannot be sliced, the remote call raises, the
  reply has no text, or the body of the \<open>try\<close> raises for any reason at all.
\<close>

theorem find_similar_products_failure_is_empty:
  "(find_similar_products_try e p ps = Inl x \<longrightarrow> find_similar_products e p ps = Inr []) \<and>
   (process_uploaded_file e p = Inl x \<longrightarrow> find_similar_products e p ps = Inr []) \<and>
   (product_lines ps = Inl x \<longrightarrow> find_similar_products e p ps = Inr []) \<and>
   (process_uploaded_file e p = Inr f \<longrightarrow> product_lines ps = Inr ls \<longrightarrow>
      generate_content e None (similar_prompt f (join [CHR 0x0A] ls)) = Inl x \<longrightarrow>
      find_similar_products e p ps = Inr []) \<and>
   (process_uploaded_file e p = Inr f \<longrightarrow> product_lines ps = Inr ls \<longrightarrow>
      generate_content e None (similar_prompt f (join [CHR 0x0A] ls)) = Inr (Response (Inl x)) \<longrightarrow>
      find_similar_products e p ps = Inr [])"
  by (auto simp: find_similar_products_def find_similar_products_try_def
        find_similar_products_reply_def split: sum.splits)

theorem find_similar_products_failure_is_empty_witness:
  "find_similar_products_try offline_env ''photo.png'' three_candidates
     = Inl (OtherError ''connection refused'') \<and>
   find_similar_products offline_env ''photo.png'' three_candidates = Inr [] \<and>
   process_uploaded_file unknown_type_env ''part''
     = Inl (ValueError ''Error processing file: Could not determine MIME type'') \<and>
   find_similar_products unknown_type_env ''part'' three_candidates = Inr [] \<and>
   product_lines [[(''id'', PyStr ''1''), (''description'', PyNone)]]
     = Inl (not_subscriptable ''NoneType'') \<and>
   find_similar_products (demo_env ''1'') ''photo.png''
     [[(''id'', PyStr ''1''), (''description'', PyNone)]] = Inr [] \<and>
   process_uploaded_file offline_env ''photo.png'' = Inr ''files/photo.png'' \<and>
   product_lines [candidate ''1'' ''A''] = Inr [product_line_A] \<and>
   generate_content offline_env None (similar_prompt ''files/photo.png'' (join [CHR 0x0A] [product_line_A]))
     = Inl (OtherError ''connection refused'') \<and>
   find_similar_products offline_env ''photo.png'' [candidate ''1'' ''A''] = Inr [] \<and>
   process_uploaded_file blocked_env ''photo.png'' = Inr ''files/photo.png'' \<and>
   generate_content blocked_env None (similar_prompt ''files/photo.png'' (join [CHR 0x0A] [product_line_A]))
     = Inr (Response (Inl (ValueError ''response has no text''))) \<and>
   find_similar_products blocked_env ''photo.png'' [candidate ''1'' ''A''] = Inr []"
proof -
  have pl: "product_lines [candidate ''1'' ''A''] = Inr [product_line_A]"
    by (simp add: candidate_def product_line_def dict_get_def product_line_A_def)
  have up: "process_uploaded_file offline_env ''photo.png'' = Inr ''files/photo.png''"
    "process_uploaded_file blocked_env ''photo.png'' = Inr ''files/photo.png''"
    by (simp_all add: client_defs demo_defs)
  have g: "generate_content offline_env None
             (similar_prompt ''files/photo.png'' (join [CHR 0x0A] [product_line_A]))
           = Inl (OtherError ''connection refused'')"
    "generate_content blocked_env None
             (similar_prompt ''files/photo.png'' (join [CHR 0x0A] [product_line_A]))
           = Inr (Response (Inl (ValueError ''response has no text'')))"
    by (simp_all add: demo_defs)
  have a: "find_similar_products_try offline_env ''photo.png'' three_candidates
             = Inl (OtherError ''connection refused'')"
    by (simp add: client_defs demo_defs)
  have b: "process_uploaded_file unknown_type_env ''part''
             = Inl (ValueError ''Error processing file: Could not determine MIME type'')"
    by (simp add: client_defs demo_defs)
  have c: "product_lines [[(''id'', PyStr ''1''), (''description'', PyNone)]]
             = Inl (not_subscriptable ''NoneType'')"
    by (simp add: product_line_def dict_get_def)
  note t = find_similar_products_failure_is_empty
  from t [of offline_env "''photo.png''" three_candidates "OtherError ''connection refused''"] a
  have 1: "find_similar_products offline_env ''photo.png'' three_candidates = Inr []"
    by blast
  from t [of unknown_type_env "''part''" three_candidates
            "ValueError ''Error processing file: Could not determine MIME type''"] b
  have 2: "find_similar_products unknown_type_env ''part'' three_candidates = Inr []"
    by blast
  from t [of "demo_env ''1''" "''photo.png''" "[[(''id'', PyStr ''1''), (''description'', PyNone)]]"
            "not_subscriptable ''NoneType''"] c
  have 3: "find_similar_products (demo_env ''1'') ''photo.png''
             [[(''id'', PyStr ''1''), (''description'', PyNone)]] = Inr []"
    by blast
  from t [of offline_env "''photo.png''" "[candidate ''1'' ''A'']" "OtherError ''connection refused''"
            "''files/photo.png''" "[product_line_A]"] up(1) pl g(1)
  have 4: "find_similar_products offline_env ''photo.png'' [candidate ''1'' ''A''] = Inr []"
    by blast
  from t [of blocked_env "''photo.png''" "[candidate ''1'' ''A'']" "ValueError ''response has no text''"
            "''files/photo.png''" "[product_line_A]"] up(2) pl g(2)
  have 5: "find_similar_products blocked_env ''photo.png'' [candidate ''1'' ''A''] = Inr []"
    by blast
  from a b c pl up g 1 2 3 4 5 show ?thesis by simp
qed

text \<open>
  C5.  When the chat fails, \<open>hardware_chat\<close> returns a result whose response is
  \<open>Error processing query: \<close> followed by the message of the exception, and whose history
  is the input history unchanged (an absent history comes back as the empty one).
\<close>

theorem hardware_chat_failure_keeps_history:
  assumes "hardware_chat_try e q hist = Inl x"
  shows "\<exists>r. hardware_chat e q hist = Inr r \<and>
             response r = ''Error processing query: '' @ str_exc x \<and>
             (\<forall>h. hist = Some h \<longrightarrow> history r = h) \<and>
             (hist = None \<longrightarrow> history r = [])"
  using assms by (simp add: hardware_chat_def)

theorem hardware_chat_failure_keeps_history_witness:
  "hardware_chat_try offline_env ''What is a GPU?'' (Some (new_turns ''hi'' ''hello''))
     = Inl (OtherError ''connection refused'') \<and>
   hardware_chat offline_env ''What is a GPU?'' (Some (new_turns ''hi'' ''hello''))
     = Inr \<lparr>response = ''Error processing query: connection refused'',
            history = new_turns ''hi'' ''hello''\<rparr>"
  using hardware_chat_failure_keeps_history
          [of offline_env "''What is a GPU?''" "Some (new_turns ''hi'' ''hello'')"
              "OtherError ''connection refused''"]
  by (simp add: client_defs demo_defs)

text \<open>
  C9, as the code has it.  The list \<open>find_similar_products\<close> returns is a subsequence of
  the candidate list: every element of it is a candidate, no candidate is returned more
  often than the candidate list holds it, however often its id occurs in the reply, and a
  candidate list without duplicates gives a result without duplicates.
\<close>

theorem find_similar_products_subseq:
  "\<exists>r. find_similar_products e p ps = Inr r \<and> subseq r ps \<and> set r \<subseteq> set ps \<and>
       (\<forall>c. count_list r c \<le> count_list ps c) \<and> (distinct ps \<longrightarrow> distinct r)"
proof (cases "find_similar_products_reply e p ps")
  case (Inl x)
  then show ?thesis by (simp add: find_similar_products_cases)
next
  case (Inr t)
  have "count_list (filter P ps) c \<le> count_list ps c" for P :: "pydict \<Rightarrow> bool" and c
    by (induction ps) auto
  with Inr show ?thesis
    by (simp add: find_similar_products_cases matching_products_def)
qed

theorem find_similar_products_subseq_witness:
  "distinct three_candidates \<and>
   find_similar_products (demo_env ''2, 2 ,2, 7'') ''photo.png'' three_candidates
     = Inr [candidate ''2'' ''B'']"
  using find_similar_products_subseq [of "demo_env ''2, 2 ,2, 7''" "''photo.png''" three_candidates]
  by (simp add: client_defs demo_defs)

text \<open>
  C9 as claimed fails for a candidate list that holds an entry twice: the entry matches
  twice and is returned twice, so the result is not free of duplicates.
\<close>

theorem find_similar_products_keeps_repeated_candidates:
  "find_similar_products (demo_env ''1'') ''photo.png'' [candidate ''1'' ''A'', candidate ''1'' ''A'']
     = Inr [candidate ''1'' ''A'', candidate ''1'' ''A''] \<and>
   \<not> distinct [candidate ''1'' ''A'', candidate ''1'' ''A'']"
  by (simp add: client_defs demo_defs)

text \<open>
  C1, as the code has it.  On a successful reply the returned list is the candidate list
  filtered to the candidates whose id occurs among the ids of the reply, so it keeps the
  candidates' input order; and the id list stored in the \<open>ProductSimilaritySearch\<close> record
  is the ids of that list cut to \<open>max_results\<close>.
\<close>

theorem find_similar_products_candidate_order:
  "(find_similar_products_reply e p ps = Inr t \<longrightarrow>
      find_similar_products e p ps
        = Inr (filter (\<lambda>c. str_val (dict_get c ''id'' (PyStr [])) \<in>
                             set (map strip (split_on CHR '','' (strip t)))) ps)) \<and>
   (FindSimilarProducts_perform_mutation e d k inp = Inr (d', out) \<longrightarrow>
      (\<exists>path full_path cands sel.
          store_upload e k = Inr (path, full_path) \<and>
          products_query d (in_category_id inp) = Inr cands \<and>
          find_similar_products e full_path (map product_dict cands) = Inr sel \<and>
          subseq sel (map product_dict cands) \<and>
          similar_product_ids (out_product_search out)
            = map (\<lambda>item. dict_get item ''id'' PyNone) (py_slice_to (in_max_results inp) sel) \<and>
          searches d' = searches d @ [out_product_search out]))"
proof (intro conjI impI)
  assume "find_similar_products_reply e p ps = Inr t"
  then show "find_similar_products e p ps
        = Inr (filter (\<lambda>c. str_val (dict_get c ''id'' (PyStr [])) \<in>
                             set (map strip (split_on CHR '','' (strip t)))) ps)"
    by (simp add: find_similar_products_cases matching_products_def parse_product_ids_def)
next
  assume m: "FindSimilarProducts_perform_mutation e d k inp = Inr (d', out)"
  have sub: "find_similar_products e fp xs = Inr sel \<Longrightarrow> subseq sel xs" for fp xs sel
    by (auto simp: find_similar_products_cases matching_products_def split: sum.splits)
  from m show "\<exists>path full_path cands sel.
          store_upload e k = Inr (path, full_path) \<and>
          products_query d (in_category_id inp) = Inr cands \<and>
          find_similar_products e full_path (map product_dict cands) = Inr sel \<and>
          subseq sel (map product_dict cands) \<and>
          similar_product_ids (out_product_search out)
            = map (\<lambda>item. dict_get item ''id'' PyNone) (py_slice_to (in_max_results inp) sel) \<and>
          searches d' = searches d @ [out_product_search out]"
    unfolding FindSimilarProducts_perform_mutation_def Let_def
    by (auto split: sum.splits prod.splits dest: sub)
qed

text \<open>
  C1 as claimed fails: the reply names product 2 before product 1, and the result has
  product 1 first, where the selection in reply order has product 2 first.
\<close>

theorem find_similar_products_not_response_order:
  "parse_product_ids ''2, 1'' = [''2'', ''1''] \<and>
   find_similar_products (demo_env ''2, 1'') ''photo.png'' three_candidates
     = Inr [candidate ''1'' ''A'', candidate ''2'' ''B''] \<and>
   response_order_selection (parse_product_ids ''2, 1'') three_candidates
     = [candidate ''2'' ''B'', candidate ''1'' ''A''] \<and>
   find_similar_products (demo_env ''2, 1'') ''photo.png'' three_candidates
     \<noteq> Inr (response_order_selection (parse_product_ids ''2, 1'') three_candidates)"
  by (simp add: client_defs demo_defs response_order_selection_def)

lemma digit_char_literals:
  "digit_char 0 = CHR ''0''" "digit_char 1 = CHR ''1''" "digit_char 2 = CHR ''2''"
  "digit_char 3 = CHR ''3''" "digit_char 4 = CHR ''4''" "digit_char 5 = CHR ''5''"
  "digit_char 6 = CHR ''6''" "digit_char 7 = CHR ''7''" "digit_char 8 = CHR ''8''"
  "digit_char 9 = CHR ''9''" "digit_char (Suc 0) = CHR ''1''"
  by code_simp+

lemma demo_mutation_run:
  "FindSimilarProducts_perform_mutation (demo_env ''12, 2, 1'') demo_db ''upload.png''
     \<lparr>in_category_id = None, in_max_results = Some 1\<rparr>
   = Inr (demo_db\<lparr>searches :=
                    [\<lparr>search_image = ''pss/upload.png'', identified_component = ''12, 2, 1'',
                      similar_product_ids = [PyStr ''1'']\<rparr>]\<rparr>,
          \<lparr>out_product_search =
             \<lparr>search_image = ''pss/upload.png'', identified_component = ''12, 2, 1'',
              similar_product_ids = [PyStr ''1'']\<rparr>,
           out_similar_products = [demo_products ! 0]\<rparr>)"
  by (simp add: FindSimilarProducts_perform_mutation_def products_query_def demo_db_def
        demo_products_def product_dict_def gpu_def GeminiClient_init_def client_defs demo_defs
        str_int_def str_nat.simps digit_char_literals Product_filter_id_in_def int_of_str_def
        int_strip_def is_int_space_def int_digits_def digit_val_def Let_def)

theorem find_similar_products_candidate_order_witness:
  "find_similar_products_reply (demo_env ''2, 1'') ''photo.png'' three_candidates = Inr ''2, 1'' \<and>
   find_similar_products (demo_env ''2, 1'') ''photo.png'' three_candidates
     = Inr [candidate ''1'' ''A'', candidate ''2'' ''B''] \<and>
   (\<exists>d' out.
      FindSimilarProducts_perform_mutation (demo_env ''12, 2, 1'') demo_db ''upload.png''
        \<lparr>in_category_id = None, in_max_results = Some 1\<rparr> = Inr (d', out) \<and>
      similar_product_ids (out_product_search out) = [PyStr ''1''])"
  using find_similar_products_candidate_order
          [of "demo_env ''2, 1''" "''photo.png''" three_candidates "''2, 1''"]
        find_similar_products_candidate_order
          [of "demo_env ''12, 2, 1''" _ _ _ demo_db "''upload.png''"
              "\<lparr>in_category_id = None, in_max_results = Some 1\<rparr>"]
  by (simp add: demo_mutation_run) (simp add: client_defs demo_defs)

section \<open>Properties of FindSimilarProducts\<close>

lemma matching_products_product_dict:
  "matching_products ids (map product_dict cs)
     = map product_dict (filter (\<lambda>p. str_int (product_id p) \<in> set ids) cs)"
  by (simp add: matching_products_def filter_map o_def product_dict_def dict_get_def)

lemma find_similar_products_product_dict:
  "\<exists>sel. find_similar_products e fp (map product_dict cs) = Inr (map product_dict sel) \<and>
         set sel \<subseteq> set cs"
proof (cases "find_similar_products_reply e fp (map product_dict cs)")
  case (Inl x)
  then have "find_similar_products e fp (map product_dict cs) = Inr (map product_dict [])"
    by (simp add: find_similar_products_cases)
  then show ?thesis by (metis empty_subsetI list.set(1))
next
  case (Inr t)
  then show ?thesis
    by (simp add: find_similar_products_cases matching_products_product_dict) auto
qed

lemma py_slice_to_map: "py_slice_to m (map f xs) = map f (py_slice_to m xs)"
  by (cases m) (simp_all add: take_map)

lemma py_slice_to_bound:
  "0 \<le> m \<Longrightarrow> length (py_slice_to (Some m) xs) \<le> nat m"
  by simp

lemma set_py_slice_to: "set (py_slice_to m xs) \<subseteq> set xs"
  by (cases m) (auto dest: in_set_takeD)

lemma product_ids_of_dicts:
  "map (\<lambda>item. dict_get item ''id'' PyNone) (map product_dict xs)
     = map (\<lambda>p. PyStr (str_int (product_id p))) xs"
  by (simp add: product_dict_def dict_get_def)

lemma prep_ids_str_int:
  "prep_ids (map (\<lambda>p. PyStr (str_int (product_id p))) xs) = Inr (map product_id xs)"
  by (induction xs) (simp_all add: int_of_str_str_int)

lemma products_query_subset:
  "products_query d c = Inr cands \<Longrightarrow> set cands \<subseteq> set (products d)"
  by (auto simp: products_query_def Product_filter_category_def split: if_splits option.splits)

lemma filter_by_ids:
  assumes "distinct (map product_id ps)" and "set lim \<subseteq> set ps"
  shows "set (filter (\<lambda>p. product_id p \<in> set (map product_id lim)) ps) \<subseteq> set lim"
    and "length (filter (\<lambda>p. product_id p \<in> set (map product_id lim)) ps) \<le> length lim"
proof -
  let ?r = "filter (\<lambda>p. product_id p \<in> set (map product_id lim)) ps"
  have inj: "inj_on product_id (set ps)"
    using assms(1) by (simp add: distinct_map)
  show sub: "set ?r \<subseteq> set lim"
  proof
    fix p assume "p \<in> set ?r"
    then have p: "p \<in> set ps" and "product_id p \<in> product_id ` set lim" by auto
    then obtain l where l: "l \<in> set lim" "product_id p = product_id l" by auto
    with assms(2) have "l \<in> set ps" by auto
    with inj p l(2) have "p = l" by (auto dest: inj_onD)
    with l(1) show "p \<in> set lim" by simp
  qed
  have "distinct ps" using assms(1) by (simp add: distinct_map)
  then have "distinct ?r" by simp
  then have "length ?r = card (set ?r)" by (rule distinct_card [symmetric])
  also have "\<dots> \<le> card (set lim)" using sub by (simp add: card_mono)
  also have "\<dots> \<le> length lim" by (rule card_length)
  finally show "length ?r \<le> length lim" .
qed

text \<open>
  C3.  A find-similar-products call with \<open>max_results = m\<close>, \<open>m\<close> not negative, that gets
  as far as a result (the upload is stored, the candidate set is loaded, the credential is
  configured) returns, with at most \<open>m\<close> products, each of them one of the candidates
  loaded from the store.  Product ids are the primary key of the store, so no two stored
  products share one.
\<close>

theorem find_similar_products_mutation_bounded:
  assumes pk: "distinct (map product_id (products d))"
    and m: "in_max_results inp = Some m" "0 \<le> m"
    and up: "store_upload e k = Inr (path, full_path)"
    and cs: "products_query d (in_category_id inp) = Inr cands"
    and key: "truthy (GEMINI_API_KEY e)"
  shows "\<exists>d' out. FindSimilarProducts_perform_mutation e d k inp = Inr (d', out) \<and>
           length (out_similar_products out) \<le> nat m \<and>
           set (out_similar_products out) \<subseteq> set cands \<and>
           product_id ` set (out_similar_products out) \<subseteq> product_id ` set cands"
proof -
  obtain s where s: "identify_hardware_from_image e full_path = Inr s"
    by (cases "identify_hardware_from_image_try e full_path")
       (simp_all add: identify_hardware_from_image_def)
  obtain sel where sel:
    "find_similar_products e full_path (map product_dict cands) = Inr (map product_dict sel)"
    "set sel \<subseteq> set cands"
    using find_similar_products_product_dict by blast
  define lim where "lim = py_slice_to (Some m) sel"
  define ids where "ids = map (\<lambda>p. PyStr (str_int (product_id p))) lim"
  define res where "res = filter (\<lambda>p. product_id p \<in> set (map product_id lim)) (products d)"
  have ids: "map (\<lambda>item. dict_get item ''id'' PyNone) (py_slice_to (Some m) (map product_dict sel)) = ids"
    unfolding py_slice_to_map product_ids_of_dicts ids_def lim_def ..
  have prep: "prep_ids ids = Inr (map product_id lim)"
    unfolding ids_def by (rule prep_ids_str_int)
  have run: "FindSimilarProducts_perform_mutation e d k inp
    = Inr (d\<lparr>searches := searches d @
                [\<lparr>search_image = path, identified_component = s, similar_product_ids = ids\<rparr>]\<rparr>,
           \<lparr>out_product_search =
               \<lparr>search_image = path, identified_component = s, similar_product_ids = ids\<rparr>,
             out_similar_products = res\<rparr>)"
    unfolding FindSimilarProducts_perform_mutation_def Let_def
    using up cs key s sel(1) m(1) ids prep
    by (simp add: GeminiClient_init_def Product_filter_id_in_def res_def del: py_slice_to.simps)
  have limc: "set lim \<subseteq> set cands"
    using sel(2) set_py_slice_to [of "Some m" sel] by (auto simp: lim_def)
  then have "set lim \<subseteq> set (products d)"
    using products_query_subset [OF cs] by auto
  from filter_by_ids [OF pk this] have r: "set res \<subseteq> set lim" "length res \<le> length lim"
    by (simp_all add: res_def)
  have "length lim \<le> nat m"
    unfolding lim_def using m(2) by (rule py_slice_to_bound)
  with r limc have "length res \<le> nat m" "set res \<subseteq> set cands" by auto
  with run show ?thesis by auto
qed

theorem find_similar_products_mutation_bounded_witness:
  "distinct (map product_id (products demo_db)) \<and> (0::int) \<le> 1 \<and>
   store_upload (demo_env ''12, 2, 1'') ''upload.png'' = Inr (''pss/upload.png'', ''/media/pss/upload.png'') \<and>
   products_query demo_db None = Inr demo_products \<and>
   truthy (GEMINI_API_KEY (demo_env ''12, 2, 1'')) \<and>
   (\<exists>d' out. FindSimilarProducts_perform_mutation (demo_env ''12, 2, 1'') demo_db ''upload.png''
                \<lparr>in_category_id = None, in_max_results = Some 1\<rparr> = Inr (d', out) \<and>
              length (out_similar_products out) \<le> nat 1 \<and>
              set (out_similar_products out) \<subseteq> set demo_products)"
proof -
  have a: "distinct (map product_id (products demo_db))"
    by (simp add: demo_db_def demo_products_def)
  have b: "store_upload (demo_env ''12, 2, 1'') ''upload.png''
             = Inr (''pss/upload.png'', ''/media/pss/upload.png'')"
    by (simp add: demo_env_def)
  have c: "products_query demo_db (in_category_id \<lparr>in_category_id = None, in_max_results = Some 1\<rparr>)
             = Inr demo_products"
    by (simp add: products_query_def demo_db_def)
  have k: "truthy (GEMINI_API_KEY (demo_env ''12, 2, 1''))"
    by (simp add: demo_env_def)
  from find_similar_products_mutation_bounded [OF a _ _ b c k, of 1] a b c k
  show ?thesis by (simp add: products_query_def) blast
qed

section \<open>Properties of HardwareChatMessage\<close>

lemma hardware_chat_total: "\<exists>r. hardware_chat e q h = Inr r"
  by (cases "hardware_chat_try e q h") (simp_all add: hardware_chat_def)

lemma hardware_chat_success:
  assumes "hardware_chat_try e q (Some h) = Inr r"
  shows "hardware_chat e q (Some h) = Inr r" and "history r = h @ new_turns q (response r)"
  using assms
  by (auto simp: hardware_chat_def hardware_chat_try_def split: sum.splits if_splits)

lemma chat_session_for_allocates:
  assumes "HardwareChat_get d sid = None \<or> sid = []" and "uuid4 e \<notin> dom (chats d)"
  shows "chat_session_for e d (Some sid)
           = Inr (d\<lparr>chats := (chats d)(uuid4 e \<mapsto> [])\<rparr>,
                  \<lparr>row_session_id = uuid4 e, row_history = []\<rparr>)"
    and "chat_session_for e d None
           = Inr (d\<lparr>chats := (chats d)(uuid4 e \<mapsto> [])\<rparr>,
                  \<lparr>row_session_id = uuid4 e, row_history = []\<rparr>)"
  using assms by (auto simp: chat_session_for_def HardwareChat_create_def)

lemma mutation_allocates:
  assumes none: "sid = None \<or> HardwareChat_get d (the sid) = None \<or> the sid = []"
    and key: "truthy (GEMINI_API_KEY e)"
    and fresh: "uuid4 e \<notin> dom (chats d)"
    and r: "hardware_chat e q (Some []) = Inr r"
  shows "HardwareChatMessage_perform_mutation e d \<lparr>in_session_id = sid, in_query = q\<rparr>
           = Inr (d\<lparr>chats := (chats d)(uuid4 e \<mapsto> history r),
                    queries := queries d @
                      [\<lparr>query_chat = uuid4 e, question = q, answer = response r\<rparr>]\<rparr>,
                  \<lparr>out_chat = \<lparr>row_session_id = uuid4 e, row_history = history r\<rparr>,
                    out_response = response r\<rparr>)"
proof -
  have "chat_session_for e d sid
           = Inr (d\<lparr>chats := (chats d)(uuid4 e \<mapsto> [])\<rparr>,
                  \<lparr>row_session_id = uuid4 e, row_history = []\<rparr>)"
    using none chat_session_for_allocates [OF _ fresh] by (cases sid) auto
  with key r show ?thesis
    by (simp add: HardwareChatMessage_perform_mutation_def GeminiClient_init_def
          HardwareChat_save_def Let_def)
qed

text \<open>
  C6, as the code has it.  A chat-message call whose session id does not resolve
  allocates a new session under the generated id, starts it from the empty history, and
  answers with the generated id, whatever the client sent.  The supplied id is never
  compared with the generated one: the answer differs from the supplied id exactly when
  the generator does not yield that very string, and then the supplied id stays unused.
\<close>

theorem unresolved_session_gets_generated_id:
  assumes unresolved: "HardwareChat_get d sid = None"
    and key: "truthy (GEMINI_API_KEY e)"
    and fresh: "uuid4 e \<notin> dom (chats d)"
  shows "\<exists>d' out r.
           HardwareChatMessage_perform_mutation e d \<lparr>in_session_id = Some sid, in_query = q\<rparr>
             = Inr (d', out) \<and>
           hardware_chat e q (Some []) = Inr r \<and>
           out_chat out = \<lparr>row_session_id = uuid4 e, row_history = history r\<rparr> \<and>
           out_response out = response r \<and>
           chats d' = (chats d)(uuid4 e \<mapsto> history r) \<and>
           (row_session_id (out_chat out) = sid \<longleftrightarrow> uuid4 e = sid) \<and>
           (uuid4 e \<noteq> sid \<longrightarrow> chats d' sid = None)"
proof -
  obtain r where r: "hardware_chat e q (Some []) = Inr r"
    using hardware_chat_total by blast
  from unresolved have "chats d sid = None"
    by (simp add: HardwareChat_get_def split: option.splits)
  then have "uuid4 e \<noteq> sid \<longrightarrow> ((chats d)(uuid4 e \<mapsto> history r)) sid = None" by simp
  with mutation_allocates [of "Some sid" d e q r] unresolved key fresh r show ?thesis
    by simp
qed

theorem unresolved_session_gets_generated_id_witness:
  "HardwareChat_get stale_db ''guess'' = None \<and>
   truthy (GEMINI_API_KEY (demo_env ''A GPU renders graphics.'')) \<and>
   uuid4 (demo_env ''A GPU renders graphics.'') \<notin> dom (chats stale_db) \<and>
   uuid4 (demo_env ''A GPU renders graphics.'') \<noteq> ''guess'' \<and>
   (\<exists>d' out.
      HardwareChatMessage_perform_mutation (demo_env ''A GPU renders graphics.'') stale_db
        \<lparr>in_session_id = Some ''guess'', in_query = ''What is a GPU?''\<rparr> = Inr (d', out) \<and>
      out_chat out = \<lparr>row_session_id = ''1b4e28ba-2fa1-41d2-883f-0016d3cca427'',
                       row_history = new_turns ''What is a GPU?'' ''A GPU renders graphics.''\<rparr> \<and>
      row_session_id (out_chat out) \<noteq> ''guess'' \<and>
      chats d' ''guess'' = None)"
proof -
  have a: "HardwareChat_get stale_db ''guess'' = None"
    by (simp add: HardwareChat_get_def stale_db_def)
  have k: "truthy (GEMINI_API_KEY (demo_env ''A GPU renders graphics.''))"
    by (simp add: demo_env_def)
  have f: "uuid4 (demo_env ''A GPU renders graphics.'') \<notin> dom (chats stale_db)"
    by (simp add: demo_env_def stale_db_def)
  have r: "hardware_chat (demo_env ''A GPU renders graphics.'') ''What is a GPU?'' (Some [])
             = Inr \<lparr>response = ''A GPU renders graphics.'',
                    history = new_turns ''What is a GPU?'' ''A GPU renders graphics.''\<rparr>"
    by (simp add: hardware_chat_def hardware_chat_try_def demo_env_def strip_def is_space_def)
  have u: "uuid4 (demo_env ''A GPU renders graphics.'') = ''1b4e28ba-2fa1-41d2-883f-0016d3cca427''"
    by (simp add: demo_env_def)
  from unresolved_session_gets_generated_id [OF a k f, of "''What is a GPU?''"] a k f
  show ?thesis unfolding r u by auto
qed

text \<open>
  C6 as claimed fails: the code does not keep the generated id apart from the supplied
  one.  When the generator yields the very string the client sent, the unresolved id
  comes back as the id of the new session.
\<close>

theorem unresolved_session_id_can_come_back:
  "HardwareChat_get demo_db ''1b4e28ba-2fa1-41d2-883f-0016d3cca427'' = None \<and>
   uuid4 (demo_env ''Yes.'') = ''1b4e28ba-2fa1-41d2-883f-0016d3cca427'' \<and>
   HardwareChatMessage_perform_mutation (demo_env ''Yes.'') demo_db
     \<lparr>in_session_id = Some ''1b4e28ba-2fa1-41d2-883f-0016d3cca427'',
      in_query = ''Do I need one?''\<rparr>
   = Inr (demo_db\<lparr>chats := [''1b4e28ba-2fa1-41d2-883f-0016d3cca427'' \<mapsto>
                              new_turns ''Do I need one?'' ''Yes.''],
                   queries := [\<lparr>query_chat = ''1b4e28ba-2fa1-41d2-883f-0016d3cca427'',
                                question = ''Do I need one?'', answer = ''Yes.''\<rparr>]\<rparr>,
          \<lparr>out_chat = \<lparr>row_session_id = ''1b4e28ba-2fa1-41d2-883f-0016d3cca427'',
                        row_history = new_turns ''Do I need one?'' ''Yes.''\<rparr>,
           out_response = ''Yes.''\<rparr>)"
  by (simp add: HardwareChatMessage_perform_mutation_def GeminiClient_init_def
        chat_session_for_def HardwareChat_get_def HardwareChat_create_def HardwareChat_save_def
        hardware_chat_def hardware_chat_try_def demo_env_def demo_db_def strip_def is_space_def
        Let_def)

text \<open>
  C10.  An empty session id is treated exactly as no session id: both calls give the
  same outcome.  No session is looked up, so a session stored under the empty id is
  neither used nor changed, and with the credential configured and a generated id that
  is not yet a session id the call allocates a new session under the generated id,
  started from the empty history.
\<close>

theorem empty_session_id_is_no_session_id:
  "HardwareChatMessage_perform_mutation e d \<lparr>in_session_id = Some [], in_query = q\<rparr>
     = HardwareChatMessage_perform_mutation e d \<lparr>in_session_id = None, in_query = q\<rparr> \<and>
   (truthy (GEMINI_API_KEY e) \<longrightarrow> uuid4 e \<notin> dom (chats d) \<longrightarrow>
      (\<exists>d' out r.
          HardwareChatMessage_perform_mutation e d \<lparr>in_session_id = Some [], in_query = q\<rparr>
            = Inr (d', out) \<and>
          hardware_chat e q (Some []) = Inr r \<and>
          out_chat out = \<lparr>row_session_id = uuid4 e, row_history = history r\<rparr> \<and>
          chats d' = (chats d)(uuid4 e \<mapsto> history r) \<and>
          (uuid4 e \<noteq> [] \<longrightarrow> chats d' [] = chats d [])))"
proof (intro conjI impI)
  show "HardwareChatMessage_perform_mutation e d \<lparr>in_session_id = Some [], in_query = q\<rparr>
     = HardwareChatMessage_perform_mutation e d \<lparr>in_session_id = None, in_query = q\<rparr>"
    by (simp add: HardwareChatMessage_perform_mutation_def chat_session_for_def
          cong: sum.case_cong prod.case_cong)
next
  assume key: "truthy (GEMINI_API_KEY e)" and fresh: "uuid4 e \<notin> dom (chats d)"
  obtain r where r: "hardware_chat e q (Some []) = Inr r"
    using hardware_chat_total by blast
  from mutation_allocates [of "Some []" d e q r] key fresh r
  show "\<exists>d' out r.
          HardwareChatMessage_perform_mutation e d \<lparr>in_session_id = Some [], in_query = q\<rparr>
            = Inr (d', out) \<and>
          hardware_chat e q (Some []) = Inr r \<and>
          out_chat out = \<lparr>row_session_id = uuid4 e, row_history = history r\<rparr> \<and>
          chats d' = (chats d)(uuid4 e \<mapsto> history r) \<and>
          (uuid4 e \<noteq> [] \<longrightarrow> chats d' [] = chats d [])"
    by simp
qed

theorem empty_session_id_is_no_session_id_witness:
  "chats stale_db [] = Some (new_turns ''old question'' ''old answer'') \<and>
   truthy (GEMINI_API_KEY (demo_env ''Yes.'')) \<and>
   uuid4 (demo_env ''Yes.'') \<notin> dom (chats stale_db) \<and>
   (\<exists>d' out.
      HardwareChatMessage_perform_mutation (demo_env ''Yes.'') stale_db
        \<lparr>in_session_id = Some [], in_query = ''Do I need one?''\<rparr> = Inr (d', out) \<and>
      HardwareChatMessage_perform_mutation (demo_env ''Yes.'') stale_db
        \<lparr>in_session_id = None, in_query = ''Do I need one?''\<rparr> = Inr (d', out) \<and>
      out_chat out = \<lparr>row_session_id = ''1b4e28ba-2fa1-41d2-883f-0016d3cca427'',
                       row_history = new_turns ''Do I need one?'' ''Yes.''\<rparr> \<and>
      chats d' [] = Some (new_turns ''old question'' ''old answer''))"
proof -
  have k: "truthy (GEMINI_API_KEY (demo_env ''Yes.''))"
    by (simp add: demo_env_def)
  have f: "uuid4 (demo_env ''Yes.'') \<notin> dom (chats stale_db)"
    by (simp add: demo_env_def stale_db_def)
  have s: "chats stale_db [] = Some (new_turns ''old question'' ''old answer'')"
    by (simp add: stale_db_def)
  have r: "hardware_chat (demo_env ''Yes.'') ''Do I need one?'' (Some [])
             = Inr \<lparr>response = ''Yes.'', history = new_turns ''Do I need one?'' ''Yes.''\<rparr>"
    by (simp add: hardware_chat_def hardware_chat_try_def demo_env_def strip_def is_space_def)
  have u: "uuid4 (demo_env ''Yes.'') = ''1b4e28ba-2fa1-41d2-883f-0016d3cca427''"
    by (simp add: demo_env_def)
  note t = empty_session_id_is_no_session_id [of "demo_env ''Yes.''" stale_db "''Do I need one?''"]
  from t have eq:
    "HardwareChatMessage_perform_mutation (demo_env ''Yes.'') stale_db
       \<lparr>in_session_id = None, in_query = ''Do I need one?''\<rparr>
     = HardwareChatMessage_perform_mutation (demo_env ''Yes.'') stale_db
         \<lparr>in_session_id = Some [], in_query = ''Do I need one?''\<rparr>"
    by simp
  from t [THEN conjunct2, rule_format, OF k f] obtain d' out where
    "HardwareChatMessage_perform_mutation (demo_env ''Yes.'') stale_db
       \<lparr>in_session_id = Some [], in_query = ''Do I need one?''\<rparr> = Inr (d', out)"
    "out_chat out = \<lparr>row_session_id = ''1b4e28ba-2fa1-41d2-883f-0016d3cca427'',
                       row_history = new_turns ''Do I need one?'' ''Yes.''\<rparr>"
    "chats d' [] = chats stale_db []"
    unfolding r u by auto
  with eq s k f show ?thesis by auto
qed

subsection \<open>Sequences of calls\<close>

lemma chat_step:
  assumes ok: "chat_call_ok e d \<lparr>in_session_id = sid, in_query = q\<rparr>"
    and run: "HardwareChatMessage_perform_mutation e d \<lparr>in_session_id = sid, in_query = q\<rparr>
                = Inr (d1, out)"
  shows "chats d1 (row_session_id (out_chat out))
           = Some (starting_history d sid @ new_turns q (out_response out))"
    and "truthy sid \<Longrightarrow> chats d (the sid) \<noteq> None \<Longrightarrow> row_session_id (out_chat out) = the sid"
    and "\<not> (truthy sid \<and> chats d (the sid) \<noteq> None) \<Longrightarrow>
           row_session_id (out_chat out) = uuid4 e \<and> uuid4 e \<notin> dom (chats d)"
proof -
  from run obtain d0 row where s: "chat_session_for e d sid = Inr (d0, row)"
    by (auto simp: HardwareChatMessage_perform_mutation_def split: sum.splits)
  with ok obtain r where t: "hardware_chat_try e q (Some (row_history row)) = Inr r"
    by (auto simp: chat_call_ok_def split: sum.splits)
  note hs = hardware_chat_success [OF t]
  from run s hs have out: "out = \<lparr>out_chat = row\<lparr>row_history := history r\<rparr>, out_response = response r\<rparr>"
    and d1: "chats d1 = (chats d0)(row_session_id row \<mapsto> history r)"
    by (auto simp: HardwareChatMessage_perform_mutation_def HardwareChat_save_def Let_def
             split: sum.splits)
  show "truthy sid \<Longrightarrow> chats d (the sid) \<noteq> None \<Longrightarrow> row_session_id (out_chat out) = the sid"
    using s out
    by (auto simp: chat_session_for_def HardwareChat_get_def split: option.splits)
  show "\<not> (truthy sid \<and> chats d (the sid) \<noteq> None) \<Longrightarrow>
           row_session_id (out_chat out) = uuid4 e \<and> uuid4 e \<notin> dom (chats d)"
    using s out
    by (auto simp: chat_session_for_def HardwareChat_get_def HardwareChat_create_def
             split: option.splits if_splits)
  have "row_history row = starting_history d sid"
    using s
    by (auto simp: chat_session_for_def HardwareChat_get_def HardwareChat_create_def
          starting_history_def split: option.splits if_splits)
  with hs(2) d1 out
  show "chats d1 (row_session_id (out_chat out))
           = Some (starting_history d sid @ new_turns q (out_response out))"
    by simp
qed

lemma turns_of_calls_Cons:
  "turns_of_calls ((e, q) # calls) (out # outs)
     = new_turns q (out_response out) @ turns_of_calls calls outs"
  by (simp add: turns_of_calls_def)

lemma chat_calls_extend_history:
  assumes "successful_chat_calls d sid0 calls = Some (d', outs)"
    and "calls \<noteq> []"
    and "\<forall>out \<in> set outs. row_session_id (out_chat out) = sid"
  shows "chats d' sid = Some (starting_history d sid0 @ turns_of_calls calls outs) \<and>
         length outs = length calls"
  using assms
proof (induction calls arbitrary: d sid0 outs)
  case Nil
  then show ?case by simp
next
  case (Cons c rest)
  obtain e q where c: "c = (e, q)" by (cases c)
  from Cons.prems(1) c have ok: "chat_call_ok e d \<lparr>in_session_id = sid0, in_query = q\<rparr>"
    by (simp split: if_splits)
  with Cons.prems(1) c obtain d1 out outs' where
    run: "HardwareChatMessage_perform_mutation e d \<lparr>in_session_id = sid0, in_query = q\<rparr>
            = Inr (d1, out)"
    and rec: "successful_chat_calls d1 (Some (row_session_id (out_chat out))) rest = Some (d', outs')"
    and outs: "outs = out # outs'"
    by (auto split: sum.splits option.splits)
  from Cons.prems(3) outs have same: "row_session_id (out_chat out) = sid"
    and same': "\<forall>o' \<in> set outs'. row_session_id (out_chat o') = sid"
    by simp_all
  from chat_step(1) [OF ok run] same
  have h1: "chats d1 sid = Some (starting_history d sid0 @ new_turns q (out_response out))"
    by simp
  show ?case
  proof (cases rest)
    case Nil
    with rec have "d' = d1" "outs' = []" by simp_all
    with h1 outs c Nil show ?thesis by (simp add: turns_of_calls_def)
  next
    case (Cons c2 rest2)
    obtain e2 q2 where c2: "c2 = (e2, q2)" by (cases c2)
    from rec same have rec': "successful_chat_calls d1 (Some sid) rest = Some (d', outs')"
      by simp
    have ne: "sid \<noteq> []"
    proof
      assume empty: "sid = []"
      from rec' Cons c2 have ok2: "chat_call_ok e2 d1 \<lparr>in_session_id = Some sid, in_query = q2\<rparr>"
        by (simp split: if_splits)
      with rec' Cons c2 obtain d2 out2 outs2 where
        run2: "HardwareChatMessage_perform_mutation e2 d1 \<lparr>in_session_id = Some sid, in_query = q2\<rparr>
                 = Inr (d2, out2)"
        and "outs' = out2 # outs2"
        by (auto split: sum.splits option.splits)
      with same' have "row_session_id (out_chat out2) = sid" by simp
      moreover from chat_step(3) [OF ok2 run2] empty
      have "row_session_id (out_chat out2) = uuid4 e2" "uuid4 e2 \<notin> dom (chats d1)"
        by simp_all
      ultimately have "sid \<notin> dom (chats d1)" by simp
      with h1 show False by auto
    qed
    from Cons have "rest \<noteq> []" by simp
    from Cons.IH [OF rec' this same']
    have "chats d' sid = Some (starting_history d1 (Some sid) @ turns_of_calls rest outs')"
      and len: "length outs' = length rest"
      by simp_all
    moreover from ne h1
    have "starting_history d1 (Some sid) = starting_history d sid0 @ new_turns q (out_response out)"
      by (simp add: starting_history_def)
    ultimately show ?thesis
      using outs c by (simp add: turns_of_calls_Cons)
  qed
qed

lemma length_turns_of_calls:
  "length outs = length calls \<Longrightarrow> length (turns_of_calls calls outs) = 2 * length calls"
proof (induction calls arbitrary: outs)
  case Nil
  then show ?case by (simp add: turns_of_calls_def)
next
  case (Cons c calls)
  then obtain out outs' where o: "outs = out # outs'" "length outs' = length calls"
    by (cases outs) auto
  obtain e q where "c = (e, q)" by (cases c)
  with Cons.IH [OF o(2)] o(1) show ?case
    by (simp add: turns_of_calls_Cons new_turns_def)
qed

text \<open>
  C4.  After \<open>N \<ge> 1\<close> successful chat-message calls in a row on one session, counted
  from the session's empty history (the first call allocates the session, or finds it
  stored with no turns yet), the stored history is the user turn and the model turn of
  each call, in call order, and so has length \<open>2 * N\<close>.  In particular a successful chat
  on an empty or absent history returns exactly those two turns.
\<close>

theorem chat_history_two_turns_per_call:
  assumes "successful_chat_calls d sid0 calls = Some (d', outs)"
    and "calls \<noteq> []"
    and "\<forall>out \<in> set outs. row_session_id (out_chat out) = sid"
    and "starting_history d sid0 = []"
  shows "chats d' sid = Some (turns_of_calls calls outs) \<and>
         length (turns_of_calls calls outs) = 2 * length calls \<and>
         length outs = length calls \<and>
         (\<forall>e q h r. h = None \<or> h = Some [] \<longrightarrow> hardware_chat_try e q h = Inr r \<longrightarrow>
            hardware_chat e q h = Inr r \<and>
            history r = [\<lparr>role = ''user'', parts = [q]\<rparr>,
                         \<lparr>role = ''model'', parts = [response r]\<rparr>])"
proof -
  from chat_calls_extend_history [OF assms(1-3)] assms(4)
  have "chats d' sid = Some (turns_of_calls calls outs)" and len: "length outs = length calls"
    by simp_all
  moreover note length_turns_of_calls [OF len]
  moreover have "hardware_chat e q h = Inr r \<and>
      history r = [\<lparr>role = ''user'', parts = [q]\<rparr>, \<lparr>role = ''model'', parts = [response r]\<rparr>]"
    if "h = None \<or> h = Some []" "hardware_chat_try e q h = Inr r" for e q h r
    using that
    by (auto simp: hardware_chat_def hardware_chat_try_def new_turns_def split: sum.splits)
  ultimately show ?thesis by blast
qed

lemma demo_two_calls:
  "successful_chat_calls demo_db None two_calls
   = Some (demo_db\<lparr>chats := [''1b4e28ba-2fa1-41d2-883f-0016d3cca427'' \<mapsto>
                               new_turns ''What is a GPU?'' ''A GPU renders graphics.''
                               @ new_turns ''Do I need one?'' ''Yes.''],
                    queries := [\<lparr>query_chat = ''1b4e28ba-2fa1-41d2-883f-0016d3cca427'',
                                 question = ''What is a GPU?'',
                                 answer = ''A GPU renders graphics.''\<rparr>,
                                \<lparr>query_chat = ''1b4e28ba-2fa1-41d2-883f-0016d3cca427'',
                                 question = ''Do I need one?'',
                                 answer = ''Yes.''\<rparr>]\<rparr>,
           [\<lparr>out_chat = \<lparr>row_session_id = ''1b4e28ba-2fa1-41d2-883f-0016d3cca427'',
                          row_history = new_turns ''What is a GPU?'' ''A GPU renders graphics.''\<rparr>,
             out_response = ''A GPU renders graphics.''\<rparr>,
            \<lparr>out_chat = \<lparr>row_session_id = ''1b4e28ba-2fa1-41d2-883f-0016d3cca427'',
                          row_history = new_turns ''What is a GPU?'' ''A GPU renders graphics.''
                                        @ new_turns ''Do I need one?'' ''Yes.''\<rparr>,
             out_response = ''Yes.''\<rparr>])"
  by (simp add: two_calls_def chat_call_ok_def HardwareChatMessage_perform_mutation_def
        GeminiClient_init_def chat_session_for_def HardwareChat_create_def HardwareChat_get_def
        HardwareChat_save_def hardware_chat_def hardware_chat_try_def demo_env_def demo_db_def
        strip_def is_space_def new_turns_def Let_def)

theorem chat_history_two_turns_per_call_witness:
  "\<exists>d' outs.
     successful_chat_calls demo_db None two_calls = Some (d', outs) \<and>
     two_calls \<noteq> [] \<and>
     (\<forall>out \<in> set outs. row_session_id (out_chat out) = ''1b4e28ba-2fa1-41d2-883f-0016d3cca427'') \<and>
     starting_history demo_db None = [] \<and>
     chats d' ''1b4e28ba-2fa1-41d2-883f-0016d3cca427''
       = Some [\<lparr>role = ''user'', parts = [''What is a GPU?'']\<rparr>,
               \<lparr>role = ''model'', parts = [''A GPU renders graphics.'']\<rparr>,
               \<lparr>role = ''user'', parts = [''Do I need one?'']\<rparr>,
               \<lparr>role = ''model'', parts = [''Yes.'']\<rparr>] \<and>
     length (turns_of_calls two_calls outs) = 2 * 2 \<and>
     hardware_chat (demo_env ''Yes.'') ''Do I need one?'' None
       = Inr \<lparr>response = ''Yes.'',
              history = [\<lparr>role = ''user'', parts = [''Do I need one?'']\<rparr>,
                         \<lparr>role = ''model'', parts = [''Yes.'']\<rparr>]\<rparr>"
proof -
  have one: "hardware_chat (demo_env ''Yes.'') ''Do I need one?'' None
       = Inr \<lparr>response = ''Yes.'',
              history = [\<lparr>role = ''user'', parts = [''Do I need one?'']\<rparr>,
                         \<lparr>role = ''model'', parts = [''Yes.'']\<rparr>]\<rparr>"
    by (simp add: hardware_chat_def hardware_chat_try_def demo_env_def strip_def is_space_def
          new_turns_def)
  have ne: "two_calls \<noteq> []" and len: "length two_calls = 2"
    by (simp_all add: two_calls_def)
  have st: "starting_history demo_db None = []"
    by (simp add: starting_history_def)
  note t = chat_history_two_turns_per_call
             [OF demo_two_calls ne _ st, of "''1b4e28ba-2fa1-41d2-883f-0016d3cca427''"]
  have "turns_of_calls two_calls
          [\<lparr>out_chat = \<lparr>row_session_id = ''1b4e28ba-2fa1-41d2-883f-0016d3cca427'',
                          row_history = new_turns ''What is a GPU?'' ''A GPU renders graphics.''\<rparr>,
             out_response = ''A GPU renders graphics.''\<rparr>,
            \<lparr>out_chat = \<lparr>row_session_id = ''1b4e28ba-2fa1-41d2-883f-0016d3cca427'',
                          row_history = new_turns ''What is a GPU?'' ''A GPU renders graphics.''
                                        @ new_turns ''Do I need one?'' ''Yes.''\<rparr>,
             out_response = ''Yes.''\<rparr>]
        = [\<lparr>role = ''user'', parts = [''What is a GPU?'']\<rparr>,
           \<lparr>role = ''model'', parts = [''A GPU renders graphics.'']\<rparr>,
           \<lparr>role = ''user'', parts = [''Do I need one?'']\<rparr>,
           \<lparr>role = ''model'', parts = [''Yes.'']\<rparr>]"
    by (simp add: turns_of_calls_def two_calls_def new_turns_def)
  with t ne st len one show ?thesis
    unfolding demo_two_calls by simp
qed

end
